theory Spec2Isabelle
  imports Complex_Main
begin

section \<open>The CSV column type-inference engine of \<open>api/views.py\<close>\<close>

text \<open>
  The theory embeds the four methods of \<open>DataFileViewSet\<close> that carry decision logic:
  \<open>validate_file\<close>, \<open>validate_dataframe\<close>, \<open>infer_and_convert_types\<close> and
  \<open>process_file\<close>. The methods are written against pandas and the Python standard
  library, which are not part of the repository. Their structural operations
  (\<open>dropna\<close>, \<open>head\<close>, \<open>isna().sum()\<close>, \<open>nunique\<close>, \<open>unique\<close>, \<open>empty\<close>,
  \<open>duplicated\<close>, \<open>os.path.splitext\<close>, \<open>str.lower\<close>) are modelled by their documented
  behaviour; the value parsers (\<open>pd.to_numeric\<close>, \<open>float\<close>, \<open>pd.to_datetime\<close>) and the
  float rounding \<open>round(x, 2)\<close> are parameters, collected in the record \<open>pandas\<close>.
\<close>

subsection \<open>Class constants\<close>

definition MAX_FILE_SIZE :: nat where
  "MAX_FILE_SIZE = 10 * 1024 * 1024"

definition ALLOWED_EXTENSIONS :: "string list" where
  "ALLOWED_EXTENSIONS = [''.csv'']"

definition MAX_COLUMNS :: nat where
  "MAX_COLUMNS = 100"

definition MAX_ROWS :: nat where
  "MAX_ROWS = 1000000"

definition SAMPLE_SIZE :: nat where
  "SAMPLE_SIZE = 5"

subsection \<open>Outcomes of library calls\<close>

text \<open>
  A call into pandas or a Python builtin either returns, or raises an exception. The
  classifier distinguishes two classes of exception: \<open>ValueError\<close> and \<open>TypeError\<close>,
  which its inner handlers \<open>except (ValueError, TypeError): pass\<close> swallow, and every
  other exception, which only the per-column handler \<open>except Exception as column_error\<close>
  catches; that handler keeps \<open>str(column_error)\<close>.
\<close>

datatype 'r outcome =
    Returns 'r
  | RaisesValueOrTypeError
  | RaisesOther string

subsection \<open>Series and data frames\<close>

text \<open>
  A cell is \<open>None\<close> when pandas regards it as missing (\<open>NaN\<close>, \<open>None\<close>, \<open>NaT\<close>) and
  \<open>Some v\<close> for a raw value \<open>v\<close>. A series carries its storage type tag. A data frame
  has an index of \<open>index_len\<close> rows and an ordered list of labelled columns; labels may
  repeat. pandas keeps every column as long as the index (\<open>frame_ok\<close>).
\<close>

record 'a series =
  dtype :: string
  cells :: "'a option list"

record 'a dataframe =
  index_len :: nat
  columns :: "(string \<times> 'a series) list"

definition frame_ok :: "'a dataframe \<Rightarrow> bool" where
  "frame_ok df = list_all (\<lambda>(c, s). length (cells s) = index_len df) (columns df)"

definition column_names :: "'a dataframe \<Rightarrow> string list" where
  \<comment> \<open>\<open>df.columns\<close> as a list of labels\<close>
  "column_names df = map fst (columns df)"

definition df_len :: "'a dataframe \<Rightarrow> nat" where
  \<comment> \<open>\<open>len(df)\<close>\<close>
  "df_len df = index_len df"

definition df_empty :: "'a dataframe \<Rightarrow> bool" where
  \<comment> \<open>\<open>df.empty\<close>: true when any axis has length 0\<close>
  "df_empty df = (length (columns df) = 0 \<or> index_len df = 0)"

fun duplicated :: "'k list \<Rightarrow> 'k list \<Rightarrow> bool list" where
  \<comment> \<open>\<open>Index.duplicated()\<close> with \<open>keep='first'\<close>: marks every label seen before;
      the first argument holds the labels already passed\<close>
  "duplicated seen [] = []"
| "duplicated seen (k # ks) = (k \<in> set seen) # duplicated (k # seen) ks"

definition any_py :: "bool list \<Rightarrow> bool" where
  \<comment> \<open>\<open>.any()\<close>\<close>
  "any_py bs = list_ex (\<lambda>b. b) bs"

definition dropna :: "'a option list \<Rightarrow> 'a list" where
  \<comment> \<open>\<open>Series.dropna()\<close>: the non-missing values, in order\<close>
  "dropna xs = map the (filter (\<lambda>x. x \<noteq> None) xs)"

definition head :: "nat \<Rightarrow> 'b list \<Rightarrow> 'b list" where
  \<comment> \<open>\<open>.head(n)\<close>\<close>
  "head n xs = take n xs"

definition isna_sum :: "'a option list \<Rightarrow> nat" where
  \<comment> \<open>\<open>Series.isna().sum()\<close>\<close>
  "isna_sum xs = length (filter (\<lambda>x. x = None) xs)"

definition unique :: "'b list \<Rightarrow> 'b list" where
  \<comment> \<open>\<open>Series.unique()\<close>: the distinct values in order of first appearance; a missing
      value is one of them when the series has any\<close>
  "unique xs = rev (remdups (rev xs))"

definition nunique :: "'a option list \<Rightarrow> nat" where
  \<comment> \<open>\<open>Series.nunique()\<close> with the default \<open>dropna=True\<close>: the number of distinct
      non-missing values\<close>
  "nunique xs = length (unique (dropna xs))"

subsection \<open>File validation\<close>

text \<open>
  \<open>os.path.splitext\<close> on a POSIX path (\<open>genericpath._splitext\<close> with separator \<open>/\<close> and
  extension separator \<open>.\<close>): the extension starts at the last dot, provided that dot
  lies after the last separator and some character between the two is not a dot.
\<close>

fun rfind :: "string \<Rightarrow> char \<Rightarrow> int" where
  \<comment> \<open>\<open>str.rfind\<close>: the index of the last occurrence, or \<open>-1\<close>\<close>
  "rfind [] c = - 1"
| "rfind (x # xs) c =
     (let r = rfind xs c in if 0 \<le> r then r + 1 else if x = c then 0 else - 1)"

function skip_leading_dots :: "string \<Rightarrow> nat \<Rightarrow> nat \<Rightarrow> bool" where
  \<comment> \<open>the \<open>while filenameIndex < dotIndex\<close> loop; \<open>True\<close> when it returns the split\<close>
  "skip_leading_dots p filenameIndex dotIndex =
     (if filenameIndex < dotIndex then
        (if take 1 (drop filenameIndex p) \<noteq> ''.'' then True
         else skip_leading_dots p (Suc filenameIndex) dotIndex)
      else False)"
  by pat_completeness auto
termination
  by (relation "measure (\<lambda>(p, filenameIndex, dotIndex). dotIndex - filenameIndex)") auto

definition splitext :: "string \<Rightarrow> string \<times> string" where
  "splitext p =
     (let sepIndex = rfind p CHR ''/'';
          dotIndex = rfind p CHR ''.''
      in if sepIndex < dotIndex \<and> skip_leading_dots p (nat (sepIndex + 1)) (nat dotIndex)
         then (take (nat dotIndex) p, drop (nat dotIndex) p)
         else (p, []))"

definition lower_char :: "char \<Rightarrow> char" where
  "lower_char c =
     (case map_of (zip ''ABCDEFGHIJKLMNOPQRSTUVWXYZ'' ''abcdefghijklmnopqrstuvwxyz'') c of
        Some d \<Rightarrow> d
      | None \<Rightarrow> c)"

definition lower :: "string \<Rightarrow> string" where
  \<comment> \<open>\<open>str.lower\<close> on ASCII text\<close>
  "lower s = map lower_char s"

text \<open>
  The uploaded file as \<open>validate_file\<close> sees it: its name (a \<open>FieldFile\<close> without a
  name is falsy) and its size, where reading the size may raise (the storage cannot find
  the file); \<open>Inl\<close> carries the message of that exception.
\<close>

record fieldfile =
  name :: string
  size_bytes :: "string + nat"

definition invalid_type_message :: string where
  \<comment> \<open>\<open>f"Invalid file type. Allowed types: {', '.join(self.ALLOWED_EXTENSIONS)}"\<close>\<close>
  "invalid_type_message = ''Invalid file type. Allowed types: .csv''"

definition size_message :: string where
  \<comment> \<open>\<open>f"File size exceeds {self.MAX_FILE_SIZE // (1024*1024)}MB limit"\<close>\<close>
  "size_message = ''File size exceeds 10MB limit''"

definition validate_file :: "fieldfile \<Rightarrow> bool \<times> string option" where
  "validate_file file_obj =
     (if name file_obj = [] then (False, Some ''No file provided'')
      else
        let file_extension = lower (snd (splitext (name file_obj)))
        in if file_extension \<notin> set ALLOWED_EXTENSIONS then (False, Some invalid_type_message)
           else
             (case size_bytes file_obj of
                Inl e \<Rightarrow> (False, Some ''File validation failed'')
              | Inr n \<Rightarrow>
                  if MAX_FILE_SIZE < n then (False, Some size_message)
                  else (True, None)))"

subsection \<open>Data frame validation\<close>

definition too_many_columns_message :: string where
  "too_many_columns_message = ''Too many columns. Maximum allowed: 100''"

definition too_many_rows_message :: string where
  "too_many_rows_message = ''Too many rows. Maximum allowed: 1000000''"

definition validate_dataframe :: "'a dataframe \<Rightarrow> bool \<times> string option" where
  "validate_dataframe df =
     (if df_empty df then (False, Some ''The file is empty'')
      else if MAX_COLUMNS < length (column_names df) then (False, Some too_many_columns_message)
      else if MAX_ROWS < df_len df then (False, Some too_many_rows_message)
      else if any_py (duplicated [] (column_names df)) then
        (False, Some ''Duplicate column names found'')
      else (True, None))"

text \<open>
  The validator as the specification words it: four checks in order, each with its own
  error, and acceptance when all pass.
\<close>

datatype structural_error = EmptyTable | TooManyColumns | TooManyRows | DuplicateColumnNames

definition spec_validate :: "'a dataframe \<Rightarrow> structural_error option" where
  "spec_validate df =
     (if \<not> (1 \<le> index_len df \<and> 1 \<le> length (columns df)) then Some EmptyTable
      else if \<not> length (columns df) \<le> 100 then Some TooManyColumns
      else if \<not> index_len df \<le> 1000000 then Some TooManyRows
      else if \<not> distinct (map fst (columns df)) then Some DuplicateColumnNames
      else None)"

fun message_of :: "structural_error \<Rightarrow> string" where
  "message_of EmptyTable = ''The file is empty''"
| "message_of TooManyColumns = ''Too many columns. Maximum allowed: 100''"
| "message_of TooManyRows = ''Too many rows. Maximum allowed: 1000000''"
| "message_of DuplicateColumnNames = ''Duplicate column names found''"

definition as_result :: "structural_error option \<Rightarrow> bool \<times> string option" where
  "as_result r = (case r of None \<Rightarrow> (True, None) | Some e \<Rightarrow> (False, Some (message_of e)))"

subsection \<open>The library parameters\<close>

text \<open>
  \<open>float(x)\<close> yields a Python float: a finite value, kept as the rational it denotes, or
  one of \<open>inf\<close>, \<open>-inf\<close>, \<open>nan\<close>. \<open>float.is_integer\<close> holds for the finite values
  without fractional part.
\<close>

datatype pyfloat = FiniteFloat rat | NonFiniteFloat

fun is_integer :: "pyfloat \<Rightarrow> bool" where
  "is_integer (FiniteFloat q) = (of_int (floor q) = q)"
| "is_integer NonFiniteFloat = False"

text \<open>
  \<^item> \<open>to_numeric_cell v\<close>: what \<open>pd.to_numeric(..., errors='raise')\<close> does on the raw
    value \<open>v\<close>. pandas converts a series value by value, passes missing values through
    and raises at the first value it cannot convert (\<open>to_numeric\<close> below).
  \<^item> \<open>py_float v\<close>: the builtin \<open>float(v)\<close>.
  \<^item> \<open>to_datetime xs\<close>: \<open>pd.to_datetime(..., errors='raise')\<close> on a whole column; it
    is taken per column because pandas may infer one format from the first value and
    hold the other values to it.
  \<^item> \<open>py_round2 q\<close>: \<open>round(x, 2)\<close> on the float \<open>x\<close> nearest to \<open>q\<close>.
\<close>

record 'a pandas =
  to_numeric_cell :: "'a \<Rightarrow> unit outcome"
  py_float :: "'a \<Rightarrow> pyfloat outcome"
  to_datetime :: "'a option list \<Rightarrow> unit outcome"
  py_round2 :: "rat \<Rightarrow> rat"

fun to_numeric :: "('a \<Rightarrow> unit outcome) \<Rightarrow> 'a option list \<Rightarrow> unit outcome" where
  "to_numeric conv [] = Returns ()"
| "to_numeric conv (None # xs) = to_numeric conv xs"
| "to_numeric conv (Some v # xs) =
     (case conv v of
        Returns u \<Rightarrow> to_numeric conv xs
      | RaisesValueOrTypeError \<Rightarrow> RaisesValueOrTypeError
      | RaisesOther e \<Rightarrow> RaisesOther e)"

fun all_is_integer :: "('a \<Rightarrow> pyfloat outcome) \<Rightarrow> 'a list \<Rightarrow> bool outcome" where
  \<comment> \<open>\<open>all(float(x).is_integer() for x in ...)\<close>: stops at the first value that is not
      integral, and at the first \<open>float(x)\<close> that raises\<close>
  "all_is_integer fl [] = Returns True"
| "all_is_integer fl (x # xs) =
     (case fl x of
        Returns v \<Rightarrow> if is_integer v then all_is_integer fl xs else Returns False
      | RaisesValueOrTypeError \<Rightarrow> RaisesValueOrTypeError
      | RaisesOther e \<Rightarrow> RaisesOther e)"

subsection \<open>Column classification\<close>

text \<open>
  The value of the \<open>'type'\<close> key of a populated entry: \<open>'integer'\<close>, \<open>'float'\<close>,
  \<open>'datetime'\<close>, \<open>'category'\<close> or \<open>'text'\<close>.
\<close>

datatype column_kind = Integer | Float | Datetime | Category | Text

record 'a column_info =
  type :: column_kind
  sample_values :: "'a list"
  original_type :: string
  null_count :: nat
  unique_count :: nat
  unique_ratio :: "rat option"

text \<open>
  An entry of the \<open>type_info\<close> dictionary: the populated record, where \<open>unique_ratio\<close> is
  \<open>None\<close> when the key is absent, or the \<open>{'type': 'error', 'error': ...}\<close> entry.
\<close>

datatype 'a entry = Info "'a column_info" | ErrorEntry string

definition info :: "'a series \<Rightarrow> column_kind \<Rightarrow> 'a column_info" where
  \<comment> \<open>the five keys that the integer, float and datetime entries consist of\<close>
  "info s k =
     \<lparr>type = k,
      sample_values = head SAMPLE_SIZE (dropna (cells s)),
      original_type = dtype s,
      null_count = isna_sum (cells s),
      unique_count = nunique (cells s),
      unique_ratio = None\<rparr>"

definition numeric_inference :: "'a pandas \<Rightarrow> 'a series \<Rightarrow> 'a column_info outcome" where
  "numeric_inference E s =
     (case to_numeric (to_numeric_cell E) (cells s) of
        Returns numeric_series \<Rightarrow>
          (case all_is_integer (py_float E) (dropna (cells s)) of
             Returns b \<Rightarrow> Returns (info s (if b then Integer else Float))
           | RaisesValueOrTypeError \<Rightarrow> RaisesValueOrTypeError
           | RaisesOther e \<Rightarrow> RaisesOther e)
      | RaisesValueOrTypeError \<Rightarrow> RaisesValueOrTypeError
      | RaisesOther e \<Rightarrow> RaisesOther e)"

definition datetime_inference :: "'a pandas \<Rightarrow> 'a series \<Rightarrow> 'a column_info outcome" where
  "datetime_inference E s =
     (case to_datetime E (cells s) of
        Returns u \<Rightarrow> Returns (info s Datetime)
      | RaisesValueOrTypeError \<Rightarrow> RaisesValueOrTypeError
      | RaisesOther e \<Rightarrow> RaisesOther e)"

definition py_div :: "nat \<Rightarrow> nat \<Rightarrow> string + rat" where
  \<comment> \<open>\<open>a / b\<close> on two lengths; \<open>Inl\<close> is \<open>str\<close> of the \<open>ZeroDivisionError\<close>\<close>
  "py_div a b = (if b = 0 then Inl ''division by zero'' else Inr (of_nat a / of_nat b))"

text \<open>
  The quotient is kept exact. Python's division of two integers is correctly rounded and
  \<open>0.5\<close> is a float, so for a column of fewer than \<open>2^53\<close> cells the float quotient is
  below \<open>0.5\<close> exactly when the exact one is.
\<close>

definition categorical_text_inference :: "'a pandas \<Rightarrow> 'a series \<Rightarrow> string + 'a column_info" where
  "categorical_text_inference E s =
     (case py_div (length (unique (cells s))) (length (cells s)) of
        Inl e \<Rightarrow> Inl e
      | Inr ratio \<Rightarrow>
          if ratio < 1 / 2 then Inr ((info s Category)\<lparr>unique_ratio := Some (py_round2 E ratio)\<rparr>)
          else Inr ((info s Text)\<lparr>unique_ratio := Some (py_round2 E ratio)\<rparr>))"

definition classify_series :: "'a pandas \<Rightarrow> 'a series \<Rightarrow> string + 'a column_info" where
  \<comment> \<open>the body of the per-column \<open>try\<close> on a series; \<open>Inl e\<close> is an exception that reaches
      \<open>except Exception as column_error\<close>, with \<open>e = str(column_error)\<close>\<close>
  "classify_series E s =
     (case numeric_inference E s of
        Returns i \<Rightarrow> Inr i
      | RaisesOther e \<Rightarrow> Inl e
      | RaisesValueOrTypeError \<Rightarrow>
          (case datetime_inference E s of
             Returns i \<Rightarrow> Inr i
           | RaisesOther e \<Rightarrow> Inl e
           | RaisesValueOrTypeError \<Rightarrow> categorical_text_inference E s))"

subsection \<open>The inference loop\<close>

text \<open>
  \<open>df[column]\<close> is a series when the label occurs once and a data frame of all the
  columns with that label otherwise. On a data frame the first statement of the loop
  body, \<open>df[column].dropna().head(...).tolist()\<close>, raises \<open>AttributeError\<close>.
\<close>

datatype 'a item = ItemSeries "'a series" | ItemFrame

definition getitem :: "'a dataframe \<Rightarrow> string \<Rightarrow> 'a item" where
  "getitem df column =
     (case filter (\<lambda>(c, s). c = column) (columns df) of
        [(c, s)] \<Rightarrow> ItemSeries s
      | other \<Rightarrow> ItemFrame)"

definition no_tolist_message :: string where
  "no_tolist_message =
     [CHR 0x27] @ ''DataFrame'' @ [CHR 0x27] @ '' object has no attribute ''
       @ [CHR 0x27] @ ''tolist'' @ [CHR 0x27]"

definition column_body :: "'a pandas \<Rightarrow> 'a dataframe \<Rightarrow> string \<Rightarrow> string + 'a column_info" where
  "column_body E df column =
     (case getitem df column of
        ItemFrame \<Rightarrow> Inl no_tolist_message
      | ItemSeries s \<Rightarrow> classify_series E s)"

definition process_column :: "'a pandas \<Rightarrow> 'a dataframe \<Rightarrow> string \<Rightarrow> 'a entry" where
  \<comment> \<open>the per-column \<open>try\<close> with its \<open>except Exception as column_error\<close>\<close>
  "process_column E df column =
     (case column_body E df column of
        Inr i \<Rightarrow> Info i
      | Inl column_error \<Rightarrow> ErrorEntry column_error)"

fun dict_set :: "'k \<Rightarrow> 'v \<Rightarrow> ('k \<times> 'v) list \<Rightarrow> ('k \<times> 'v) list" where
  \<comment> \<open>\<open>d[k] = v\<close> on an insertion-ordered dictionary\<close>
  "dict_set k v [] = [(k, v)]"
| "dict_set k v ((k', v') # d) =
     (if k' = k then (k, v) # d else (k', v') # dict_set k v d)"

text \<open>
  Every statement of the loop body lies inside the per-column \<open>try\<close>, whose handler
  catches \<open>Exception\<close>; so the outer handler, which would re-raise as \<open>ValueError\<close>, has
  nothing to catch and the function returns the dictionary.
\<close>

definition infer_and_convert_types :: "'a pandas \<Rightarrow> 'a dataframe \<Rightarrow> (string \<times> 'a entry) list" where
  "infer_and_convert_types E df =
     foldl (\<lambda>type_info column. dict_set column (process_column E df column) type_info)
       [] (column_names df)"

subsection \<open>The request handler\<close>

text \<open>
  \<open>process_file\<close> is modelled on its inputs: what \<open>self.get_object()\<close> yields and what
  \<open>pd.read_csv\<close> yields for each encoding. Next to the response it returns the calls it
  made, in order, so that statements about what ran before what can be made.
\<close>

datatype get_object_result =
    DoesNotExist
  | GetRaises string
  | Got fieldfile

datatype 'a read_result =
    Parsed "'a dataframe"
  | UnicodeDecodeError
  | EmptyDataError
  | ParserError
  | ReadRaises string

datatype call =
    Call_validate_file
  | Call_read_csv string
  | Call_validate_dataframe
  | Call_infer_and_convert_types

record 'a response_data =
  status :: string
  file_name :: string
  file_size :: nat
  total_rows :: nat
  total_columns :: nat
  column_types :: "(string \<times> 'a entry) list"
  columns_list :: "string list"
  sample_data :: "(string \<times> 'a option) list list"

datatype 'a response =
    Response "'a response_data"
  | ErrorResponse nat "string option"

definition unexpected :: "string \<Rightarrow> string option" where
  "unexpected e = Some (''An unexpected error occurred: '' @ e)"

fun read_encodings :: "(string \<Rightarrow> 'a read_result) \<Rightarrow> string list \<Rightarrow> 'a read_result \<times> call list" where
  \<comment> \<open>the \<open>for encoding in [...]\<close> loop: the first encoding that does not raise
      \<open>UnicodeDecodeError\<close> decides; running out of encodings is the loop's \<open>else\<close>\<close>
  "read_encodings read_csv [] = (UnicodeDecodeError, [])"
| "read_encodings read_csv (encoding # rest) =
     (case read_csv encoding of
        UnicodeDecodeError \<Rightarrow>
          (let (r, cs) = read_encodings read_csv rest in (r, Call_read_csv encoding # cs))
      | r \<Rightarrow> (r, [Call_read_csv encoding]))"

definition to_dict_records :: "'a dataframe \<Rightarrow> (string \<times> 'a option) list list" where
  \<comment> \<open>\<open>to_dict(orient='records')\<close> of a frame whose labels are distinct and whose
      columns are as long as its index\<close>
  "to_dict_records df =
     map (\<lambda>i. map (\<lambda>(c, s). (c, cells s ! i)) (columns df)) [0 ..< index_len df]"

definition df_head :: "nat \<Rightarrow> 'a dataframe \<Rightarrow> 'a dataframe" where
  "df_head n df =
     \<lparr>index_len = min n (index_len df),
      columns = map (\<lambda>(c, s). (c, s\<lparr>cells := head n (cells s)\<rparr>)) (columns df)\<rparr>"

definition analyse :: "'a pandas \<Rightarrow> fieldfile \<Rightarrow> 'a dataframe \<Rightarrow> 'a response \<times> call list" where
  \<comment> \<open>the handler from \<open># Validate DataFrame\<close> on\<close>
  "analyse E f df =
     (case validate_dataframe df of
        (False, error_message) \<Rightarrow> (ErrorResponse 400 error_message, [Call_validate_dataframe])
      | (True, error_message) \<Rightarrow>
          (let type_info = infer_and_convert_types E df;
               calls = [Call_validate_dataframe, Call_infer_and_convert_types]
           in case size_bytes f of
                Inl e \<Rightarrow> (ErrorResponse 500 (unexpected e), calls)
              | Inr n \<Rightarrow>
                  (Response
                     \<lparr>status = ''success'',
                      file_name = name f,
                      file_size = n,
                      total_rows = df_len df,
                      total_columns = length (column_names df),
                      column_types = type_info,
                      columns_list = column_names df,
                      sample_data = to_dict_records (df_head SAMPLE_SIZE df)\<rparr>,
                   calls)))"

definition process_file ::
    "'a pandas \<Rightarrow> get_object_result \<Rightarrow> (string \<Rightarrow> 'a read_result) \<Rightarrow> 'a response \<times> call list" where
  "process_file E obj read_csv =
     (case obj of
        DoesNotExist \<Rightarrow> (ErrorResponse 404 (Some ''File not found''), [])
      | GetRaises e \<Rightarrow> (ErrorResponse 500 (unexpected e), [])
      | Got f \<Rightarrow>
          if name f = [] then (ErrorResponse 404 (Some ''File not found on server''), [])
          else
            (case validate_file f of
               (False, error_message) \<Rightarrow> (ErrorResponse 400 error_message, [Call_validate_file])
             | (True, error_message) \<Rightarrow>
                 (case read_encodings read_csv [''utf-8'', ''latin1'', ''iso-8859-1''] of
                    (UnicodeDecodeError, cs) \<Rightarrow>
                      (ErrorResponse 400 (Some ''Unable to decode file with supported encodings''),
                       Call_validate_file # cs)
                  | (EmptyDataError, cs) \<Rightarrow>
                      (ErrorResponse 400 (Some ''The file is empty''), Call_validate_file # cs)
                  | (ParserError, cs) \<Rightarrow>
                      (ErrorResponse 400 (Some ''Invalid CSV format''), Call_validate_file # cs)
                  | (ReadRaises e, cs) \<Rightarrow>
                      (ErrorResponse 500 (unexpected e), Call_validate_file # cs)
                  | (Parsed df, cs) \<Rightarrow>
                      (let (r, cs') = analyse E f df in (r, Call_validate_file # cs @ cs')))))"

subsection \<open>A small instance of the library parameters\<close>

text \<open>
  To run the model on concrete tables of strings, the parameters are instantiated with
  parsers for a fragment of what pandas accepts: unsigned decimal literals as numbers and
  ISO dates \<open>dddd-dd-dd\<close> as date/times; every other string is refused with a
  \<open>ValueError\<close>. \<open>round(x, 2)\<close> is taken on the exact quotient, ties to even.
\<close>

definition is_digit :: "char \<Rightarrow> bool" where
  "is_digit c = (c \<in> set ''0123456789'')"

definition digit_value :: "char \<Rightarrow> nat" where
  "digit_value c =
     (case map_of (zip ''0123456789'' [0, 1, 2, 3, 4, 5, 6, 7, 8, 9]) c of
        Some n \<Rightarrow> n
      | None \<Rightarrow> 0)"

definition digits_value :: "string \<Rightarrow> nat" where
  "digits_value ds = foldl (\<lambda>n c. 10 * n + digit_value c) 0 ds"

definition all_digits :: "string \<Rightarrow> bool" where
  "all_digits ds = (ds \<noteq> [] \<and> list_all is_digit ds)"

definition decimal_literal :: "string \<Rightarrow> rat option" where
  "decimal_literal s =
     (let whole = takeWhile (\<lambda>c. c \<noteq> CHR ''.'') s;
          rest = dropWhile (\<lambda>c. c \<noteq> CHR ''.'') s
      in if \<not> all_digits whole then None
         else if rest = [] then Some (of_nat (digits_value whole))
         else if \<not> all_digits (tl rest) then None
         else Some (of_nat (digits_value whole)
                    + of_nat (digits_value (tl rest)) / of_nat (10 ^ length (tl rest))))"

definition iso_date :: "string \<Rightarrow> bool" where
  "iso_date s =
     (length s = 10 \<and> all_digits (take 4 s) \<and> s ! 4 = CHR ''-'' \<and> all_digits (take 2 (drop 5 s))
      \<and> s ! 7 = CHR ''-'' \<and> all_digits (drop 8 s))"

definition round_half_even2 :: "rat \<Rightarrow> rat" where
  "round_half_even2 q =
     (let n = floor (q * 100);
          r = q * 100 - of_int n
      in if r < 1 / 2 then of_int n / 100
         else if 1 / 2 < r then of_int (n + 1) / 100
         else if even n then of_int n / 100
         else of_int (n + 1) / 100)"

definition demo_pandas :: "string pandas" where
  "demo_pandas =
     \<lparr>to_numeric_cell =
        (\<lambda>v. case decimal_literal v of Some q \<Rightarrow> Returns () | None \<Rightarrow> RaisesValueOrTypeError),
      py_float =
        (\<lambda>v. case decimal_literal v of
                Some q \<Rightarrow> Returns (FiniteFloat q)
              | None \<Rightarrow> RaisesValueOrTypeError),
      to_datetime =
        (\<lambda>xs. if list_all iso_date (dropna xs) then Returns () else RaisesValueOrTypeError),
      py_round2 = round_half_even2\<rparr>"

definition object_series :: "string option list \<Rightarrow> string series" where
  \<comment> \<open>a column of strings, as \<open>read_csv\<close> stores it\<close>
  "object_series xs = \<lparr>dtype = ''object'', cells = xs\<rparr>"

definition crashing_pandas :: "string pandas" where
  \<comment> \<open>the same instance with a date parser that fails on the cell \<open>crash\<close> with an
      exception outside \<open>ValueError\<close> and \<open>TypeError\<close>, to exercise the per-column handler\<close>
  "crashing_pandas =
     demo_pandas
       \<lparr>to_datetime :=
          (\<lambda>xs. if Some ''crash'' \<in> set xs then RaisesOther ''date parser failed''
                else to_datetime demo_pandas xs)\<rparr>"


section \<open>Auxiliary facts\<close>

lemma any_duplicated:
  "any_py (duplicated seen ks) = (\<not> distinct ks \<or> set ks \<inter> set seen \<noteq> {})"
  by (induction ks arbitrary: seen) (auto simp: any_py_def)

lemma df_empty_iff: "df_empty df = (\<not> (1 \<le> index_len df \<and> 1 \<le> length (columns df)))"
  by (cases "columns df") (auto simp: df_empty_def)

lemma duplicated_names:
  "any_py (duplicated [] (column_names df)) = (\<not> distinct (map fst (columns df)))"
  by (simp add: any_duplicated column_names_def)

lemma validate_refines: "validate_dataframe df = as_result (spec_validate df)"
  unfolding validate_dataframe_def spec_validate_def df_empty_iff duplicated_names
  by (simp add: as_result_def column_names_def df_len_def MAX_COLUMNS_def MAX_ROWS_def
      too_many_columns_message_def too_many_rows_message_def)

lemma validate_ok_iff:
  "validate_dataframe df = (True, None) \<longleftrightarrow>
     0 < index_len df \<and> 0 < length (columns df) \<and> length (columns df) \<le> 100
     \<and> index_len df \<le> 1000000 \<and> distinct (map fst (columns df))"
  unfolding validate_dataframe_def df_empty_iff duplicated_names
  by (auto simp add: column_names_def df_len_def MAX_COLUMNS_def MAX_ROWS_def Suc_le_eq)

lemma dict_set_append:
  "k \<notin> fst ` set d \<Longrightarrow> dict_set k v d = d @ [(k, v)]"
  by (induction d) auto

lemma foldl_dict_set:
  "distinct ks \<Longrightarrow> set ks \<inter> fst ` set d = {} \<Longrightarrow>
   foldl (\<lambda>acc k. dict_set k (f k) acc) d ks = d @ map (\<lambda>k. (k, f k)) ks"
proof (induction ks arbitrary: d)
  case Nil
  then show ?case by simp
next
  case (Cons k ks)
  have "k \<notin> fst ` set d" using Cons.prems by auto
  then have step: "dict_set k (f k) d = d @ [(k, f k)]" by (rule dict_set_append)
  have "set ks \<inter> fst ` set (d @ [(k, f k)]) = {}" using Cons.prems by auto
  with Cons.IH [of "d @ [(k, f k)]"] Cons.prems step show ?case by simp
qed

lemma getitem_distinct:
  "distinct (map fst cs) \<Longrightarrow> (c, s) \<in> set cs \<Longrightarrow>
   filter (\<lambda>(c', s'). c' = c) cs = [(c, s)]"
proof (induction cs)
  case Nil
  then show ?case by simp
next
  case (Cons a cs)
  show ?case
  proof (cases "a = (c, s)")
    case True
    have "filter (\<lambda>(c', s'). c' = c) cs = []"
      using Cons.prems True by (force simp: filter_empty_conv)
    with True show ?thesis by simp
  next
    case False
    then have mem: "(c, s) \<in> set cs" using Cons.prems by auto
    then have "c \<in> fst ` set cs" by force
    moreover have "fst a \<notin> fst ` set cs" using Cons.prems(1) by simp
    ultimately have "fst a \<noteq> c" by blast
    moreover have "filter (\<lambda>(c', s'). c' = c) cs = [(c, s)]"
      using Cons.IH Cons.prems(1) mem by simp
    ultimately show ?thesis by (cases a) simp
  qed
qed

lemma process_column_distinct:
  "distinct (map fst (columns df)) \<Longrightarrow> (c, s) \<in> set (columns df) \<Longrightarrow>
   process_column E df c = (case classify_series E s of Inr i \<Rightarrow> Info i | Inl e \<Rightarrow> ErrorEntry e)"
  by (simp add: process_column_def column_body_def getitem_def getitem_distinct)

lemma infer_distinct:
  assumes "distinct (map fst (columns df))"
  shows "infer_and_convert_types E df =
     map (\<lambda>(c, s). (c, case classify_series E s of Inr i \<Rightarrow> Info i | Inl e \<Rightarrow> ErrorEntry e))
       (columns df)"
proof -
  have "infer_and_convert_types E df = map (\<lambda>c. (c, process_column E df c)) (map fst (columns df))"
    using assms foldl_dict_set [of "map fst (columns df)" "[]" "process_column E df"]
    by (simp add: infer_and_convert_types_def column_names_def)
  also have "\<dots> = map (\<lambda>(c, s). (c, case classify_series E s of Inr i \<Rightarrow> Info i | Inl e \<Rightarrow> ErrorEntry e))
       (columns df)"
    using assms by (auto simp: process_column_distinct)
  finally show ?thesis .
qed


lemma dropna_simps [simp]:
  "dropna [] = []"
  "dropna (None # xs) = dropna xs"
  "dropna (Some v # xs) = v # dropna xs"
  by (simp_all add: dropna_def)

lemma set_dropna: "set (dropna xs) = {v. Some v \<in> set xs}"
proof (induction xs)
  case Nil
  then show ?case by simp
next
  case (Cons x xs)
  then show ?case by (cases x) auto
qed

lemma to_numeric_accepts:
  "\<forall>v\<in>set (dropna xs). conv v = Returns () \<Longrightarrow> to_numeric conv xs = Returns ()"
  by (induction conv xs rule: to_numeric.induct) auto

lemma to_numeric_refuses:
  "\<exists>v\<in>set (dropna xs). conv v \<noteq> Returns () \<Longrightarrow>
   \<forall>v\<in>set (dropna xs). \<forall>e. conv v \<noteq> RaisesOther e \<Longrightarrow>
   to_numeric conv xs = RaisesValueOrTypeError"
  by (induction conv xs rule: to_numeric.induct) (auto split: outcome.splits)

lemma all_is_integer_returns:
  "\<forall>v\<in>set xs. \<exists>x. fl v = Returns x \<Longrightarrow>
   all_is_integer fl xs = Returns (\<forall>v\<in>set xs. \<forall>x. fl v = Returns x \<longrightarrow> is_integer x)"
  by (induction fl xs rule: all_is_integer.induct) (auto split: outcome.splits)

lemma length_unique: "length (unique xs) = card (set xs)"
  by (simp add: unique_def length_remdups_card_conv)

lemma length_unique_le: "length (unique xs) \<le> length xs"
  by (simp add: length_unique card_length)

lemma unique_counts_missing:
  "length (unique xs) = nunique xs + (if None \<in> set xs then 1 else 0)"
proof -
  have split: "set xs - {None} = Some ` set (dropna xs)"
  proof (rule set_eqI)
    fix x
    show "x \<in> set xs - {None} \<longleftrightarrow> x \<in> Some ` set (dropna xs)"
      by (cases x) (auto simp: set_dropna image_iff)
  qed
  have "card (set xs - {None}) = card (set (dropna xs))"
    unfolding split by (rule card_image) simp
  moreover have "None \<in> set xs \<Longrightarrow> 0 < card (set xs)"
    by (auto simp: card_gt_0_iff)
  ultimately have "card (set xs) = card (set (dropna xs)) + (if None \<in> set xs then 1 else 0)"
    by (cases "None \<in> set xs") (auto simp: card_Diff_singleton_if)
  then show ?thesis by (simp add: length_unique nunique_def)
qed

lemma numeric_refused_nonempty:
  "numeric_inference E s = RaisesValueOrTypeError \<Longrightarrow> cells s \<noteq> []"
proof
  assume a: "numeric_inference E s = RaisesValueOrTypeError" and e: "cells s = []"
  show False using a by (simp add: numeric_inference_def e)
qed

lemma round_half_even2_unit:
  assumes "0 \<le> q" "q \<le> 1"
  shows "0 \<le> round_half_even2 q \<and> round_half_even2 q \<le> 1"
proof -
  define n where "n = floor (q * 100)"
  have n0: "0 \<le> n" using assms by (simp add: n_def)
  have n100: "n \<le> 100" using assms by (simp add: n_def floor_le_iff)
  have lo: "0 \<le> (of_int n :: rat) / 100" using n0 by simp
  have hi: "(of_int n :: rat) / 100 \<le> 1" using n100 by simp
  show ?thesis
  proof (cases "n = 100")
    case True
    have "q * 100 \<le> 100" using assms by simp
    moreover have "of_int n \<le> q * 100" unfolding n_def by simp
    ultimately have "q * 100 - of_int n = 0" using True by simp
    then show ?thesis using True unfolding round_half_even2_def n_def [symmetric] by (simp add: Let_def)
  next
    case False
    then have "n + 1 \<le> 100" using n100 by simp
    then have hi': "(of_int (n + 1) :: rat) / 100 \<le> 1" by simp
    have lo': "0 \<le> (of_int (n + 1) :: rat) / 100" using n0 by simp
    show ?thesis unfolding round_half_even2_def n_def [symmetric] Let_def
      using lo hi lo' hi' by (simp del: of_int_add)
  qed
qed


declare skip_leading_dots.simps [simp del]

lemma skip_leading_dots_found:
  "i < j \<Longrightarrow> take 1 (drop i p) \<noteq> ''.'' \<Longrightarrow> skip_leading_dots p i j = True"
  by (subst skip_leading_dots.simps) simp

lemma skip_leading_dots_step:
  "i < j \<Longrightarrow> take 1 (drop i p) = ''.'' \<Longrightarrow>
   skip_leading_dots p i j = skip_leading_dots p (Suc i) j"
  by (subst skip_leading_dots.simps) simp

lemma skip_leading_dots_end: "\<not> i < j \<Longrightarrow> skip_leading_dots p i j = False"
  by (subst skip_leading_dots.simps) simp

lemmas skip_leading_dots_eval =
  skip_leading_dots_found skip_leading_dots_step skip_leading_dots_end

lemma floor_rat_numeral:
  "\<lfloor>numeral a / numeral b :: rat\<rfloor> = numeral a div numeral b"
  using floor_divide_of_int_eq [of "numeral a" "numeral b", where ?'a = rat] by simp

lemmas classify_eval =
  classify_series_def numeric_inference_def datetime_inference_def
  categorical_text_inference_def py_div_def info_def head_def SAMPLE_SIZE_def isna_sum_def
  nunique_def unique_def

lemmas demo_eval =
  demo_pandas_def object_series_def decimal_literal_def all_digits_def is_digit_def
  digits_value_def digit_value_def iso_date_def round_half_even2_def floor_rat_numeral

lemma datetime_inference_kind:
  "datetime_inference E s = Returns i \<Longrightarrow> type i = Datetime"
  by (auto simp: datetime_inference_def info_def split: outcome.splits)

lemma numeric_inference_kind:
  "numeric_inference E s = Returns i \<Longrightarrow> type i = Integer \<or> type i = Float"
  by (auto simp: numeric_inference_def info_def split: outcome.splits if_splits)

lemma fallback_kind:
  "categorical_text_inference E s = Inr i \<Longrightarrow> type i = Category \<or> type i = Text"
  by (auto simp: categorical_text_inference_def info_def split: sum.splits if_splits)

lemma fallback_nonempty:
  "cells s \<noteq> [] \<Longrightarrow>
   categorical_text_inference E s =
     Inr ((info s (if (of_nat (length (unique (cells s))) / of_nat (length (cells s)) :: rat) < 1 / 2
                   then Category else Text))
          \<lparr>unique_ratio :=
             Some (py_round2 E (of_nat (length (unique (cells s))) / of_nat (length (cells s))))\<rparr>)"
  by (simp add: categorical_text_inference_def py_div_def)

lemma all_missing:
  "\<forall>x\<in>set xs. x = None \<Longrightarrow> dropna xs = [] \<and> isna_sum xs = length xs"
  by (induction xs) (auto simp: isna_sum_def)

lemma classify_all_missing:
  assumes "\<forall>x\<in>set (cells s). x = None"
  shows "classify_series E s =
     Inr \<lparr>type = Integer, sample_values = [], original_type = dtype s,
          null_count = length (cells s), unique_count = 0, unique_ratio = None\<rparr>"
proof -
  have d: "dropna (cells s) = []" and n: "isna_sum (cells s) = length (cells s)"
    using all_missing [OF assms] by simp_all
  have "to_numeric (to_numeric_cell E) (cells s) = Returns ()"
    by (rule to_numeric_accepts) (simp add: d)
  then show ?thesis
    by (simp add: classify_series_def numeric_inference_def info_def head_def nunique_def
        unique_def d n)
qed

lemma classify_fallback:
  assumes "classify_series E s = Inr i" and "type i = Category \<or> type i = Text"
  shows "categorical_text_inference E s = Inr i \<and> cells s \<noteq> []"
proof -
  have n: "numeric_inference E s = RaisesValueOrTypeError"
  proof (cases "numeric_inference E s")
    case (Returns j)
    then have "i = j" using assms(1) by (simp add: classify_series_def)
    then show ?thesis using numeric_inference_kind [OF Returns] assms(2) by auto
  next
    case RaisesValueOrTypeError
    then show ?thesis .
  next
    case (RaisesOther e)
    then show ?thesis using assms(1) by (simp add: classify_series_def)
  qed
  have d: "datetime_inference E s = RaisesValueOrTypeError"
  proof (cases "datetime_inference E s")
    case (Returns j)
    then have "i = j" using assms(1) n by (simp add: classify_series_def)
    then show ?thesis using datetime_inference_kind [OF Returns] assms(2) by auto
  next
    case RaisesValueOrTypeError
    then show ?thesis .
  next
    case (RaisesOther e)
    then show ?thesis using assms(1) n by (simp add: classify_series_def)
  qed
  have "categorical_text_inference E s = Inr i"
    using assms(1) n d by (simp add: classify_series_def)
  moreover have "cells s \<noteq> []" using n by (rule numeric_refused_nonempty)
  ultimately show ?thesis by simp
qed

lemma unique_quotient_unit:
  "(0::rat) \<le> of_nat (length (unique xs)) / of_nat (length xs)
   \<and> (of_nat (length (unique xs)) / of_nat (length xs) :: rat) \<le> 1"
proof -
  have "(of_nat (length (unique xs)) :: rat) \<le> of_nat (length xs)"
    using length_unique_le [of xs] by simp
  then show ?thesis by (simp add: divide_le_eq_1)
qed


section \<open>The table validator\<close>

lemma spec_validate_shape:
  assumes "index_len df' = index_len df"
    and "map fst (columns df') = map fst (columns df)"
  shows "spec_validate df' = spec_validate df"
proof -
  have "length (map fst (columns df')) = length (map fst (columns df))"
    using assms(2) by simp
  then have c: "length (columns df') = length (columns df)" by simp
  show ?thesis unfolding spec_validate_def assms c ..
qed

text \<open>
  Claim C7. \<open>validate_dataframe\<close> performs the four checks of the specification in its
  order, stopping at the first that fails: at least one row and one column
  (\<open>EmptyTable\<close>), at most 100 columns (\<open>TooManyColumns\<close>), at most 1,000,000 rows
  (\<open>TooManyRows\<close>), distinct column names (\<open>DuplicateColumnNames\<close>); it accepts when
  all four pass. The verdict depends on the row count and the column names only, so a
  table with duplicate names is rejected whatever its cells hold.
\<close>

theorem validate_dataframe_four_checks:
  "validate_dataframe df = as_result (spec_validate df)
   \<and> (index_len df' = index_len df \<and> map fst (columns df') = map fst (columns df)
        \<longrightarrow> validate_dataframe df' = validate_dataframe df)"
proof (intro conjI impI)
  show "validate_dataframe df = as_result (spec_validate df)" by (rule validate_refines)
next
  assume "index_len df' = index_len df \<and> map fst (columns df') = map fst (columns df)"
  then have "spec_validate df' = spec_validate df" by (intro spec_validate_shape) simp_all
  then show "validate_dataframe df' = validate_dataframe df" by (simp only: validate_refines)
qed

theorem validate_dataframe_four_checks_witness:
  "validate_dataframe
     \<lparr>index_len = 1,
      columns = [(''a'', object_series [Some ''1'']), (''a'', object_series [Some ''x'']),
                 (''b'', object_series [None])]\<rparr>
   = (False, Some ''Duplicate column names found'')
   \<and> validate_dataframe
     \<lparr>index_len = 1,
      columns = [(''a'', object_series [None]), (''a'', object_series [None]),
                 (''b'', object_series [Some ''2023-01-01''])]\<rparr>
   = (False, Some ''Duplicate column names found'')"
  using validate_dataframe_four_checks
    [of "\<lparr>index_len = 1,
      columns = [(''a'', object_series [Some ''1'']), (''a'', object_series [Some ''x'']),
                 (''b'', object_series [None])]\<rparr>"
        "\<lparr>index_len = 1,
      columns = [(''a'', object_series [None]), (''a'', object_series [None]),
                 (''b'', object_series [Some ''2023-01-01''])]\<rparr>"]
  by (simp add: spec_validate_def as_result_def)

section \<open>The fallback's division\<close>

lemma frame_ok_column:
  "frame_ok df \<Longrightarrow> (c, s) \<in> set (columns df) \<Longrightarrow> length (cells s) = index_len df"
  by (auto simp: frame_ok_def list_all_iff)

text \<open>
  Claim C10. In a table that passed validation, every column is as long as the index,
  which has at least one row; so the division that computes \<open>unique_ratio\<close> in the
  categorical/text fallback has a nonzero denominator, the length of the column, and the
  fallback returns a result: the \<open>ZeroDivisionError\<close> of \<open>py_div\<close> cannot occur.
\<close>

theorem fallback_division_total:
  assumes "validate_dataframe df = (True, None)" and "frame_ok df"
    and "(c, s) \<in> set (columns df)"
  shows "length (cells s) = index_len df \<and> 0 < length (cells s)
     \<and> py_div (length (unique (cells s))) (length (cells s))
         = Inr (of_nat (length (unique (cells s))) / of_nat (index_len df))
     \<and> (\<exists>i. categorical_text_inference E s = Inr i)"
proof -
  have len: "length (cells s) = index_len df" using assms(2,3) by (rule frame_ok_column)
  have pos: "0 < index_len df" using assms(1) by (simp add: validate_ok_iff)
  have d: "py_div (length (unique (cells s))) (length (cells s))
         = Inr (of_nat (length (unique (cells s))) / of_nat (index_len df))"
    using len pos by (simp add: py_div_def)
  have "\<exists>i. categorical_text_inference E s = Inr i"
    unfolding categorical_text_inference_def d by simp
  with len pos d show ?thesis by simp
qed

theorem fallback_division_total_witness:
  "validate_dataframe \<lparr>index_len = 2, columns = [(''a'', object_series [Some ''xyz'', None])]\<rparr>
     = (True, None)
   \<and> frame_ok \<lparr>index_len = 2, columns = [(''a'', object_series [Some ''xyz'', None])]\<rparr>
   \<and> py_div (length (unique [Some ''xyz'', None])) (length [Some ''xyz'', None :: string option])
       = Inr 1"
proof -
  let ?df = "\<lparr>index_len = 2, columns = [(''a'', object_series [Some ''xyz'', None])]\<rparr>"
  have v: "validate_dataframe ?df = (True, None)"
    by (simp add: validate_ok_iff)
  have f: "frame_ok ?df" by (simp add: frame_ok_def object_series_def)
  have m: "(''a'', object_series [Some ''xyz'', None]) \<in> set (columns ?df)" by simp
  show ?thesis
    using v f fallback_division_total [OF v f m, of demo_pandas]
    by (simp add: object_series_def unique_def)
qed

section \<open>The file validator\<close>

lemma ext_DATA: "lower (snd (splitext ''DATA.CSV'')) = ''.csv''"
  by (simp add: splitext_def lower_def lower_char_def skip_leading_dots_eval)

lemma ext_data: "lower (snd (splitext ''data.Csv'')) = ''.csv''"
  by (simp add: splitext_def lower_def lower_char_def skip_leading_dots_eval)

lemma validate_file_ext:
  "name f \<noteq> [] \<Longrightarrow>
   (validate_file f = (False, Some invalid_type_message))
     = (lower (snd (splitext (name f))) \<noteq> ''.csv'')"
  by (simp add: validate_file_def ALLOWED_EXTENSIONS_def invalid_type_message_def
      size_message_def Let_def split: sum.splits)

lemma validate_file_accept:
  "name f \<noteq> [] \<Longrightarrow> lower (snd (splitext (name f))) = ''.csv'' \<Longrightarrow>
   size_bytes f = Inr n \<Longrightarrow> n \<le> MAX_FILE_SIZE \<Longrightarrow> validate_file f = (True, None)"
  by (simp add: validate_file_def ALLOWED_EXTENSIONS_def Let_def)

text \<open>
  Claim C9. The extension check of \<open>validate_file\<close> is case-insensitive: a named file
  is turned away with the invalid-file-type message exactly when the lower-cased
  extension of its name differs from \<open>.csv\<close>, and that happens before its size is
  looked at (the size does not occur in the condition). \<open>DATA.CSV\<close> and \<open>data.Csv\<close>
  are accepted when their size is within the limit.
\<close>

theorem validate_file_extension_check:
  "(name f \<noteq> [] \<longrightarrow>
      (validate_file f = (False, Some invalid_type_message))
        = (lower (snd (splitext (name f))) \<noteq> ''.csv''))
   \<and> (n \<le> MAX_FILE_SIZE \<longrightarrow>
        validate_file \<lparr>name = ''DATA.CSV'', size_bytes = Inr n\<rparr> = (True, None)
        \<and> validate_file \<lparr>name = ''data.Csv'', size_bytes = Inr n\<rparr> = (True, None))"
  using validate_file_ext [of f]
    validate_file_accept [of "\<lparr>name = ''DATA.CSV'', size_bytes = Inr n\<rparr>" n]
    validate_file_accept [of "\<lparr>name = ''data.Csv'', size_bytes = Inr n\<rparr>" n]
  by (simp add: ext_DATA ext_data)

theorem validate_file_extension_check_witness:
  "validate_file \<lparr>name = ''uploads/notes.txt'', size_bytes = Inr 99999999999\<rparr>
     = (False, Some invalid_type_message)
   \<and> validate_file \<lparr>name = ''DATA.CSV'', size_bytes = Inr 2048\<rparr> = (True, None)
   \<and> validate_file \<lparr>name = ''data.Csv'', size_bytes = Inr 2048\<rparr> = (True, None)"
  using validate_file_extension_check
    [of "\<lparr>name = ''uploads/notes.txt'', size_bytes = Inr 99999999999\<rparr>" 2048]
  by (simp add: splitext_def lower_def lower_char_def skip_leading_dots_eval MAX_FILE_SIZE_def)

section \<open>The numeric branch\<close>

lemma numeric_all_parse:
  assumes "\<forall>v\<in>set (dropna (cells s)).
             to_numeric_cell E v = Returns () \<and> (\<exists>x. py_float E v = Returns x)"
  shows "classify_series E s =
     Inr (info s (if (\<forall>v\<in>set (dropna (cells s)). \<forall>x. py_float E v = Returns x \<longrightarrow> is_integer x)
                  then Integer else Float))"
proof -
  have n: "to_numeric (to_numeric_cell E) (cells s) = Returns ()"
    using assms by (intro to_numeric_accepts) blast
  have f: "all_is_integer (py_float E) (dropna (cells s)) =
      Returns (\<forall>v\<in>set (dropna (cells s)). \<forall>x. py_float E v = Returns x \<longrightarrow> is_integer x)"
    using assms by (intro all_is_integer_returns) blast
  show ?thesis by (simp add: classify_series_def numeric_inference_def n f)
qed

lemma numeric_refused:
  assumes "\<exists>v\<in>set (dropna (cells s)). to_numeric_cell E v \<noteq> Returns ()"
    and "\<forall>v\<in>set (dropna (cells s)). \<forall>e. to_numeric_cell E v \<noteq> RaisesOther e"
  shows "numeric_inference E s = RaisesValueOrTypeError"
proof -
  have "to_numeric (to_numeric_cell E) (cells s) = RaisesValueOrTypeError"
    using assms by (rule to_numeric_refuses)
  then show ?thesis by (simp add: numeric_inference_def)
qed

lemma after_numeric_refused:
  assumes "numeric_inference E s = RaisesValueOrTypeError"
  shows "classify_series E s =
      (case datetime_inference E s of
         Returns i \<Rightarrow> Inr i
       | RaisesOther e \<Rightarrow> Inl e
       | RaisesValueOrTypeError \<Rightarrow> categorical_text_inference E s)"
    and "classify_series E s = Inr i \<Longrightarrow> type i \<noteq> Integer \<and> type i \<noteq> Float"
proof -
  show c: "classify_series E s =
      (case datetime_inference E s of
         Returns i \<Rightarrow> Inr i
       | RaisesOther e \<Rightarrow> Inl e
       | RaisesValueOrTypeError \<Rightarrow> categorical_text_inference E s)"
    by (simp add: classify_series_def assms)
  assume r: "classify_series E s = Inr i"
  show "type i \<noteq> Integer \<and> type i \<noteq> Float"
  proof (cases "datetime_inference E s")
    case (Returns j)
    then have "i = j" using r c by simp
    then show ?thesis using datetime_inference_kind [OF Returns] by simp
  next
    case RaisesValueOrTypeError
    then have "categorical_text_inference E s = Inr i" using r c by simp
    then show ?thesis using fallback_kind by fastforce
  next
    case (RaisesOther e)
    then show ?thesis using r c by simp
  qed
qed

text \<open>
  Claim C5. When every non-missing cell of a column parses as a number (\<open>pd.to_numeric\<close>
  accepts it and \<open>float\<close> returns its value), the column is classified \<open>integer\<close> if
  every parsed value has zero fractional part and \<open>float\<close> otherwise: the entry has that
  \<open>type\<close>, the first five non-missing values as samples, the storage type, the null
  count, the unique count and no \<open>unique_ratio\<close>. When some non-missing cell fails the
  numeric parse (a failed conversion raises \<open>ValueError\<close> or \<open>TypeError\<close>), the numeric
  branch is abandoned as a whole: the result is that of the later branches, never
  \<open>integer\<close> or \<open>float\<close>.
\<close>

theorem numeric_branch_all_or_nothing:
  "((\<forall>v\<in>set (dropna (cells s)).
        to_numeric_cell E v = Returns () \<and> (\<exists>x. py_float E v = Returns x))
    \<longrightarrow> classify_series E s =
          Inr (info s (if (\<forall>v\<in>set (dropna (cells s)).
                             \<forall>x. py_float E v = Returns x \<longrightarrow> is_integer x)
                       then Integer else Float))
        \<and> classify_series E s =
          Inr \<lparr>type = (if (\<forall>v\<in>set (dropna (cells s)).
                               \<forall>x. py_float E v = Returns x \<longrightarrow> is_integer x)
                         then Integer else Float),
               sample_values = take 5 (dropna (cells s)),
               original_type = dtype s,
               null_count = isna_sum (cells s),
               unique_count = nunique (cells s),
               unique_ratio = None\<rparr>
        \<and> (\<forall>i. classify_series E s = Inr i \<longrightarrow>
               (type i = Integer
                  \<longleftrightarrow> (\<forall>v\<in>set (dropna (cells s)).
                         \<forall>x. py_float E v = Returns x \<longrightarrow> is_integer x))
               \<and> (type i = Float
                  \<longleftrightarrow> \<not> (\<forall>v\<in>set (dropna (cells s)).
                           \<forall>x. py_float E v = Returns x \<longrightarrow> is_integer x))))
   \<and> ((\<exists>v\<in>set (dropna (cells s)). to_numeric_cell E v \<noteq> Returns ())
      \<and> (\<forall>v\<in>set (dropna (cells s)). \<forall>e. to_numeric_cell E v \<noteq> RaisesOther e)
    \<longrightarrow> numeric_inference E s = RaisesValueOrTypeError
        \<and> classify_series E s =
            (case datetime_inference E s of
               Returns i \<Rightarrow> Inr i
             | RaisesOther e \<Rightarrow> Inl e
             | RaisesValueOrTypeError \<Rightarrow> categorical_text_inference E s)
        \<and> (\<forall>i. classify_series E s = Inr i \<longrightarrow> type i \<noteq> Integer \<and> type i \<noteq> Float))"
proof (intro conjI impI)
  let ?A = "\<forall>v\<in>set (dropna (cells s)). \<forall>x. py_float E v = Returns x \<longrightarrow> is_integer x"
  assume "\<forall>v\<in>set (dropna (cells s)).
        to_numeric_cell E v = Returns () \<and> (\<exists>x. py_float E v = Returns x)"
  then show k: "classify_series E s = Inr (info s (if ?A then Integer else Float))"
    by (rule numeric_all_parse)
  then show "classify_series E s =
          Inr \<lparr>type = (if ?A then Integer else Float),
               sample_values = take 5 (dropna (cells s)),
               original_type = dtype s,
               null_count = isna_sum (cells s),
               unique_count = nunique (cells s),
               unique_ratio = None\<rparr>"
    by (simp add: info_def head_def SAMPLE_SIZE_def)
  show "\<forall>i. classify_series E s = Inr i \<longrightarrow>
               (type i = Integer \<longleftrightarrow> ?A) \<and> (type i = Float \<longleftrightarrow> \<not> ?A)"
  proof (intro allI impI)
    fix i
    assume "classify_series E s = Inr i"
    then have "i = info s (if ?A then Integer else Float)" using k by simp
    then have "type i = (if ?A then Integer else Float)" by (simp add: info_def)
    then show "(type i = Integer \<longleftrightarrow> ?A) \<and> (type i = Float \<longleftrightarrow> \<not> ?A)"
      by (cases ?A) simp_all
  qed
next
  assume a: "(\<exists>v\<in>set (dropna (cells s)). to_numeric_cell E v \<noteq> Returns ())
      \<and> (\<forall>v\<in>set (dropna (cells s)). \<forall>e. to_numeric_cell E v \<noteq> RaisesOther e)"
  then show n: "numeric_inference E s = RaisesValueOrTypeError"
    by (intro numeric_refused) simp_all
  show "classify_series E s =
            (case datetime_inference E s of
               Returns i \<Rightarrow> Inr i
             | RaisesOther e \<Rightarrow> Inl e
             | RaisesValueOrTypeError \<Rightarrow> categorical_text_inference E s)"
    using n by (rule after_numeric_refused(1))
  show "\<forall>i. classify_series E s = Inr i \<longrightarrow> type i \<noteq> Integer \<and> type i \<noteq> Float"
    using after_numeric_refused(2) [OF n] by blast
qed

theorem numeric_branch_all_or_nothing_witness:
  "classify_series demo_pandas (object_series [Some ''1'', Some ''2'', Some ''3''])
     = Inr \<lparr>type = Integer, sample_values = [''1'', ''2'', ''3''],
            original_type = ''object'', null_count = 0, unique_count = 3,
            unique_ratio = None\<rparr>
   \<and> classify_series demo_pandas (object_series [Some ''1'', Some ''2.5'', Some ''3''])
     = Inr \<lparr>type = Float, sample_values = [''1'', ''2.5'', ''3''],
            original_type = ''object'', null_count = 0, unique_count = 3,
            unique_ratio = None\<rparr>
   \<and> numeric_inference demo_pandas (object_series [Some ''1'', Some ''abc''])
     = RaisesValueOrTypeError
   \<and> classify_series demo_pandas (object_series [Some ''1'', Some ''abc''])
     = Inr \<lparr>type = Text, sample_values = [''1'', ''abc''], original_type = ''object'',
            null_count = 0, unique_count = 2, unique_ratio = Some 1\<rparr>"
proof -
  have a: "classify_series demo_pandas (object_series [Some ''1'', Some ''2'', Some ''3''])
     = Inr \<lparr>type = Integer, sample_values = [''1'', ''2'', ''3''],
            original_type = ''object'', null_count = 0, unique_count = 3,
            unique_ratio = None\<rparr>"
    using numeric_branch_all_or_nothing
      [of "object_series [Some ''1'', Some ''2'', Some ''3'']" demo_pandas]
    by (simp add: demo_eval info_def head_def SAMPLE_SIZE_def isna_sum_def nunique_def
        unique_def)
  have b: "classify_series demo_pandas (object_series [Some ''1'', Some ''2.5'', Some ''3''])
     = Inr \<lparr>type = Float, sample_values = [''1'', ''2.5'', ''3''],
            original_type = ''object'', null_count = 0, unique_count = 3,
            unique_ratio = None\<rparr>"
    using numeric_branch_all_or_nothing
      [of "object_series [Some ''1'', Some ''2.5'', Some ''3'']" demo_pandas]
    by (simp add: demo_eval info_def head_def SAMPLE_SIZE_def isna_sum_def nunique_def
        unique_def)
  have c: "numeric_inference demo_pandas (object_series [Some ''1'', Some ''abc''])
       = RaisesValueOrTypeError
     \<and> classify_series demo_pandas (object_series [Some ''1'', Some ''abc''])
       = Inr \<lparr>type = Text, sample_values = [''1'', ''abc''], original_type = ''object'',
              null_count = 0, unique_count = 2, unique_ratio = Some 1\<rparr>"
    using numeric_branch_all_or_nothing
      [of "object_series [Some ''1'', Some ''abc'']" demo_pandas]
    by (simp add: demo_eval datetime_inference_def categorical_text_inference_def py_div_def
        info_def head_def SAMPLE_SIZE_def isna_sum_def nunique_def unique_def)
  from a b c show ?thesis by simp
qed

section \<open>The datetime branch\<close>

lemma numeric_inference_ignores_datetime:
  "numeric_inference (E\<lparr>to_datetime := d\<rparr>) s = numeric_inference E s"
proof -
  have "py_float (E\<lparr>to_datetime := d\<rparr>) = py_float E"
    and "to_numeric_cell (E\<lparr>to_datetime := d\<rparr>) = to_numeric_cell E"
    by simp_all
  then show ?thesis unfolding numeric_inference_def by (simp only:)
qed

text \<open>
  Claim C6. A column whose numeric attempt failed and which \<open>pd.to_datetime\<close> accepts is
  classified \<open>datetime\<close> (so never \<open>text\<close>); when \<open>pd.to_datetime\<close> refuses it, the
  result is that of the categorical/text fallback. The datetime branch is tried only
  after the numeric branch failed: when the numeric branch returns, its result stands
  whatever the date parser would do.
\<close>

theorem datetime_branch_after_numeric:
  "(numeric_inference E s = RaisesValueOrTypeError \<and> to_datetime E (cells s) = Returns ()
      \<longrightarrow> classify_series E s = Inr (info s Datetime) \<and> type (info s Datetime) = Datetime)
   \<and> (numeric_inference E s = RaisesValueOrTypeError
        \<and> to_datetime E (cells s) = RaisesValueOrTypeError
      \<longrightarrow> classify_series E s = categorical_text_inference E s)
   \<and> (numeric_inference E s = Returns i
      \<longrightarrow> classify_series (E\<lparr>to_datetime := d\<rparr>) s = Inr i \<and> type i \<noteq> Datetime)"
proof (intro conjI impI)
  assume "numeric_inference E s = RaisesValueOrTypeError \<and> to_datetime E (cells s) = Returns ()"
  then show "classify_series E s = Inr (info s Datetime)"
    by (simp add: classify_series_def datetime_inference_def)
next
  show "type (info s Datetime) = Datetime" by (simp add: info_def)
next
  assume "numeric_inference E s = RaisesValueOrTypeError
        \<and> to_datetime E (cells s) = RaisesValueOrTypeError"
  then show "classify_series E s = categorical_text_inference E s"
    by (simp add: classify_series_def datetime_inference_def)
next
  assume r: "numeric_inference E s = Returns i"
  then show "classify_series (E\<lparr>to_datetime := d\<rparr>) s = Inr i"
    by (simp add: classify_series_def numeric_inference_ignores_datetime)
  show "type i \<noteq> Datetime" using numeric_inference_kind [OF r] by auto
qed

theorem datetime_branch_after_numeric_witness:
  "classify_series demo_pandas (object_series [Some ''2023-01-01'', Some ''2023-02-01''])
     = Inr \<lparr>type = Datetime, sample_values = [''2023-01-01'', ''2023-02-01''],
            original_type = ''object'', null_count = 0, unique_count = 2,
            unique_ratio = None\<rparr>"
  using datetime_branch_after_numeric
    [of demo_pandas "object_series [Some ''2023-01-01'', Some ''2023-02-01'']"]
  by (simp add: classify_eval demo_eval)

section \<open>The inference loop\<close>

text \<open>
  Claim C4. On a table that passed validation, \<open>infer_and_convert_types\<close> returns one
  entry per column, in column order. Each entry is decided by its own column alone: the
  classification when the column body returns, and the \<open>error\<close> entry with the message of
  the exception when it raises; an exception in one column leaves the entries of the
  other columns, and the report as a whole, untouched.
\<close>

theorem infer_one_entry_per_column:
  assumes "validate_dataframe df = (True, None)"
  shows "infer_and_convert_types E df =
       map (\<lambda>(c, s). (c, case classify_series E s of Inr i \<Rightarrow> Info i | Inl e \<Rightarrow> ErrorEntry e))
         (columns df)
     \<and> map fst (infer_and_convert_types E df) = column_names df
     \<and> length (infer_and_convert_types E df) = length (columns df)"
proof -
  have d: "distinct (map fst (columns df))" using assms by (simp add: validate_ok_iff)
  have e: "infer_and_convert_types E df =
       map (\<lambda>(c, s). (c, case classify_series E s of Inr i \<Rightarrow> Info i | Inl e \<Rightarrow> ErrorEntry e))
         (columns df)"
    using d by (rule infer_distinct)
  have "map fst (infer_and_convert_types E df) = column_names df"
    unfolding e column_names_def by (induction "columns df") auto
  moreover have "length (infer_and_convert_types E df) = length (columns df)"
    unfolding e by simp
  ultimately show ?thesis using e by simp
qed

theorem infer_one_entry_per_column_witness:
  "validate_dataframe
     \<lparr>index_len = 2,
      columns = [(''a'', object_series [Some ''1'', Some ''2'']),
                 (''b'', object_series [Some ''crash'', None]),
                 (''c'', object_series [Some ''x'', Some ''y''])]\<rparr> = (True, None)
   \<and> infer_and_convert_types crashing_pandas
     \<lparr>index_len = 2,
      columns = [(''a'', object_series [Some ''1'', Some ''2'']),
                 (''b'', object_series [Some ''crash'', None]),
                 (''c'', object_series [Some ''x'', Some ''y''])]\<rparr>
     = [(''a'', Info \<lparr>type = Integer, sample_values = [''1'', ''2''], original_type = ''object'',
                      null_count = 0, unique_count = 2, unique_ratio = None\<rparr>),
        (''b'', ErrorEntry ''date parser failed''),
        (''c'', Info \<lparr>type = Text, sample_values = [''x'', ''y''], original_type = ''object'',
                      null_count = 0, unique_count = 2, unique_ratio = Some 1\<rparr>)]"
proof -
  let ?df = "\<lparr>index_len = 2,
      columns = [(''a'', object_series [Some ''1'', Some ''2'']),
                 (''b'', object_series [Some ''crash'', None]),
                 (''c'', object_series [Some ''x'', Some ''y''])]\<rparr>"
  have v: "validate_dataframe ?df = (True, None)" by (simp add: validate_ok_iff)
  show ?thesis
    using v infer_one_entry_per_column [OF v, of crashing_pandas]
    by (simp add: classify_eval crashing_pandas_def demo_eval)
qed

section \<open>Columns without values\<close>

text \<open>
  Claim C1, as stated, fails: a column whose cells are all missing never reaches the
  categorical/text fallback. \<open>pd.to_numeric\<close> passes missing values through, and
  \<open>all(...)\<close> over no values is true, so the numeric branch classifies the column
  \<open>integer\<close>. The table below passes validation; the entry of its column is the
  \<open>integer\<close> entry, not the \<open>category\<close> entry with \<open>unique_ratio\<close> 0 that the claim
  describes.
\<close>

theorem all_null_column_counterexample:
  "validate_dataframe
     \<lparr>index_len = 2,
      columns = [(''a'', \<lparr>dtype = ''float64'', cells = [None, None :: string option]\<rparr>)]\<rparr>
     = (True, None)
   \<and> infer_and_convert_types demo_pandas
     \<lparr>index_len = 2, columns = [(''a'', \<lparr>dtype = ''float64'', cells = [None, None]\<rparr>)]\<rparr>
     = [(''a'', Info \<lparr>type = Integer, sample_values = [], original_type = ''float64'',
                      null_count = 2, unique_count = 0, unique_ratio = None\<rparr>)]
   \<and> infer_and_convert_types demo_pandas
     \<lparr>index_len = 2, columns = [(''a'', \<lparr>dtype = ''float64'', cells = [None, None]\<rparr>)]\<rparr>
     \<noteq> [(''a'', Info \<lparr>type = Category, sample_values = [], original_type = ''float64'',
                      null_count = 2, unique_count = 0, unique_ratio = Some 0\<rparr>)]"
proof -
  let ?df = "\<lparr>index_len = 2, columns = [(''a'', \<lparr>dtype = ''float64'', cells = [None, None :: string option]\<rparr>)]\<rparr>"
  have v: "validate_dataframe ?df = (True, None)" by (simp add: validate_ok_iff)
  have "distinct (map fst (columns ?df))" by simp
  from infer_distinct [OF this, of demo_pandas] v show ?thesis
    by (simp add: classify_eval)
qed

text \<open>
  Claim C1, amended. In a table that passed validation, a column whose cells are all
  missing is classified \<open>integer\<close>, with \<open>null_count\<close> equal to the row count,
  \<open>unique_count\<close> 0, no sample values and no \<open>unique_ratio\<close>; no division takes place
  and no error is recorded for it.
\<close>

theorem all_null_column_integer:
  assumes "validate_dataframe df = (True, None)" and "frame_ok df"
    and "(c, s) \<in> set (columns df)" and "\<forall>x\<in>set (cells s). x = None"
  shows "classify_series E s =
       Inr \<lparr>type = Integer, sample_values = [], original_type = dtype s,
            null_count = index_len df, unique_count = 0, unique_ratio = None\<rparr>
     \<and> (c, Info \<lparr>type = Integer, sample_values = [], original_type = dtype s,
                  null_count = index_len df, unique_count = 0, unique_ratio = None\<rparr>)
         \<in> set (infer_and_convert_types E df)"
proof -
  have len: "length (cells s) = index_len df" using assms(2,3) by (rule frame_ok_column)
  have k: "classify_series E s =
       Inr \<lparr>type = Integer, sample_values = [], original_type = dtype s,
            null_count = index_len df, unique_count = 0, unique_ratio = None\<rparr>"
    using classify_all_missing [OF assms(4), of E] len by simp
  have d: "distinct (map fst (columns df))" using assms(1) by (simp add: validate_ok_iff)
  have "(c, case classify_series E s of Inr i \<Rightarrow> Info i | Inl e \<Rightarrow> ErrorEntry e)
      \<in> set (infer_and_convert_types E df)"
    unfolding infer_distinct [OF d] using assms(3) by force
  then show ?thesis using k by simp
qed

theorem all_null_column_integer_witness:
  "validate_dataframe
     \<lparr>index_len = 3,
      columns = [(''id'', object_series [Some ''1'', Some ''2'', Some ''3'']),
                 (''note'', \<lparr>dtype = ''float64'', cells = [None, None, None]\<rparr>)]\<rparr>
     = (True, None)
   \<and> frame_ok
     \<lparr>index_len = 3,
      columns = [(''id'', object_series [Some ''1'', Some ''2'', Some ''3'']),
                 (''note'', \<lparr>dtype = ''float64'', cells = [None, None, None]\<rparr>)]\<rparr>
   \<and> classify_series demo_pandas \<lparr>dtype = ''float64'', cells = [None, None, None]\<rparr> =
     Inr \<lparr>type = Integer, sample_values = [], original_type = ''float64'',
          null_count = 3, unique_count = 0, unique_ratio = None\<rparr>"
proof -
  let ?s = "\<lparr>dtype = ''float64'', cells = [None, None, None :: string option]\<rparr>"
  let ?df = "\<lparr>index_len = 3,
      columns = [(''id'', object_series [Some ''1'', Some ''2'', Some ''3'']), (''note'', ?s)]\<rparr>"
  have v: "validate_dataframe ?df = (True, None)" by (simp add: validate_ok_iff)
  have f: "frame_ok ?df" by (simp add: frame_ok_def object_series_def)
  have m: "(''note'', ?s) \<in> set (columns ?df)" by simp
  have n: "\<forall>x\<in>set (cells ?s). x = None" by simp
  from all_null_column_integer [OF v f m n, of demo_pandas] v f show ?thesis by simp
qed

section \<open>The unique ratio\<close>

text \<open>
  Claim C2, as stated, fails: \<open>unique_ratio\<close> is computed from \<open>len(df[column].unique())\<close>,
  and \<open>unique()\<close> lists a missing value among the distinct values, while \<open>unique_count\<close>
  comes from \<open>nunique()\<close>, which leaves it out. For the column \<open>["xyz", NaN]\<close> the entry
  reports \<open>unique_count\<close> 1 over 2 rows and \<open>unique_ratio\<close> 1, where the claim gives
  \<open>round(1 / 2, 2)\<close>, that is 0.5.
\<close>

theorem unique_ratio_counterexample:
  "classify_series demo_pandas (object_series [Some ''xyz'', None])
     = Inr \<lparr>type = Text, sample_values = [''xyz''], original_type = ''object'',
            null_count = 1, unique_count = 1, unique_ratio = Some 1\<rparr>
   \<and> py_round2 demo_pandas
        (of_nat (nunique [Some ''xyz'', None]) / of_nat (length [Some ''xyz'', None]))
     = 1 / 2"
  by (simp add: classify_eval demo_eval)

text \<open>
  Claim C2, amended. For every column classified \<open>category\<close> or \<open>text\<close>, the reported
  \<open>unique_ratio\<close> is the number of distinct values of the column, a missing value counting
  as one of them when the column has any, divided by the number of cells and rounded to
  two decimals. The quotient lies in [0,1], and so does the reported value whenever
  rounding keeps [0,1] in itself. \<open>unique_count\<close> counts the distinct non-missing values,
  so the ratio is \<open>unique_count\<close> over the row count exactly for the columns without
  missing cells.
\<close>

theorem unique_ratio_counts_missing:
  assumes "classify_series E s = Inr i" and "type i = Category \<or> type i = Text"
  shows "unique_ratio i =
       Some (py_round2 E (of_nat (length (unique (cells s))) / of_nat (length (cells s))))
     \<and> length (unique (cells s))
         = nunique (cells s) + (if None \<in> set (cells s) then 1 else 0)
     \<and> unique_count i = nunique (cells s)
     \<and> (0::rat) \<le> of_nat (length (unique (cells s))) / of_nat (length (cells s))
     \<and> (of_nat (length (unique (cells s))) / of_nat (length (cells s)) :: rat) \<le> 1
     \<and> ((\<forall>q. 0 \<le> q \<and> q \<le> 1 \<longrightarrow> 0 \<le> py_round2 E q \<and> py_round2 E q \<le> 1)
        \<longrightarrow> (\<exists>r. unique_ratio i = Some r \<and> 0 \<le> r \<and> r \<le> 1))"
proof -
  let ?q = "of_nat (length (unique (cells s))) / of_nat (length (cells s)) :: rat"
  have f: "categorical_text_inference E s = Inr i" and ne: "cells s \<noteq> []"
    using classify_fallback [OF assms] by simp_all
  have i: "i = (info s (if ?q < 1 / 2 then Category else Text))
                 \<lparr>unique_ratio := Some (py_round2 E ?q)\<rparr>"
    using f fallback_nonempty [OF ne, of E] by simp
  have r: "unique_ratio i = Some (py_round2 E ?q)" by (subst i) simp
  have c: "unique_count i = nunique (cells s)" by (subst i) (simp add: info_def)
  have u: "0 \<le> ?q \<and> ?q \<le> 1" by (rule unique_quotient_unit)
  have "(\<forall>q. 0 \<le> q \<and> q \<le> 1 \<longrightarrow> 0 \<le> py_round2 E q \<and> py_round2 E q \<le> 1)
        \<longrightarrow> (\<exists>r. unique_ratio i = Some r \<and> 0 \<le> r \<and> r \<le> 1)"
    using r u by blast
  with r c u unique_counts_missing [of "cells s"] show ?thesis by simp
qed

theorem unique_ratio_counts_missing_witness:
  "classify_series demo_pandas (object_series [Some ''xyz'', None])
     = Inr \<lparr>type = Text, sample_values = [''xyz''], original_type = ''object'',
            null_count = 1, unique_count = 1, unique_ratio = Some 1\<rparr>
   \<and> length (unique [Some ''xyz'', None]) = nunique [Some ''xyz'', None] + 1"
proof -
  let ?s = "object_series [Some ''xyz'', None]"
  let ?i = "\<lparr>type = Text, sample_values = [''xyz''], original_type = ''object'',
            null_count = 1, unique_count = 1, unique_ratio = Some (1::rat)\<rparr>"
  have k: "classify_series demo_pandas ?s = Inr ?i" by (simp add: classify_eval demo_eval)
  have t: "type ?i = Category \<or> type ?i = Text" by simp
  have b: "\<forall>q. 0 \<le> q \<and> q \<le> 1 \<longrightarrow>
          0 \<le> py_round2 demo_pandas q \<and> py_round2 demo_pandas q \<le> 1"
    using round_half_even2_unit by (simp add: demo_pandas_def)
  from unique_ratio_counts_missing [OF k t] k b show ?thesis
    by (simp add: object_series_def)
qed

text \<open>
  Claim C3, as stated, fails for the same reason: the ratio that is compared with 0.5
  counts a missing value as a distinct value. The column
  \<open>["xyz", "xyz", "xyz", NaN]\<close> has one distinct non-missing value in four cells, a
  ratio of 0.25 by the claim and hence \<open>category\<close>; the code computes 2 / 4 and answers
  \<open>text\<close>.
\<close>

theorem fallback_threshold_counterexample:
  "classify_series demo_pandas
       (object_series [Some ''xyz'', Some ''xyz'', Some ''xyz'', None])
     = Inr \<lparr>type = Text, sample_values = [''xyz'', ''xyz'', ''xyz''],
            original_type = ''object'', null_count = 1, unique_count = 1,
            unique_ratio = Some (1 / 2)\<rparr>
   \<and> (of_nat (nunique [Some ''xyz'', Some ''xyz'', Some ''xyz'', None])
        / of_nat (length [Some ''xyz'', Some ''xyz'', Some ''xyz'', None]) :: rat) < 1 / 2"
  by (simp add: classify_eval demo_eval)

text \<open>
  Claim C3, amended. For every column that reaches the categorical/text fallback (the
  numeric and the datetime attempt both failed), the classifier computes \<open>unique_ratio\<close>
  as the number of distinct values, a missing value counting as one of them when the
  column has any, divided by the number of cells; the entry has \<open>type\<close> \<open>category\<close>
  exactly when the ratio is below 0.5 and \<open>text\<close> exactly when it is not, and carries
  the rounded ratio next to the samples, the storage type, the null count and the unique
  count. The branch always succeeds: such a column has a cell, so the division is
  defined.
\<close>

theorem fallback_classification:
  assumes "numeric_inference E s = RaisesValueOrTypeError"
    and "datetime_inference E s = RaisesValueOrTypeError"
  shows "cells s \<noteq> []
     \<and> classify_series E s =
         Inr ((info s (if (of_nat (length (unique (cells s))) / of_nat (length (cells s)) :: rat)
                            < 1 / 2
                       then Category else Text))
              \<lparr>unique_ratio :=
                 Some (py_round2 E
                         (of_nat (length (unique (cells s))) / of_nat (length (cells s))))\<rparr>)
     \<and> length (unique (cells s))
         = nunique (cells s) + (if None \<in> set (cells s) then 1 else 0)
     \<and> classify_series E s =
         Inr \<lparr>type = (if (of_nat (length (unique (cells s))) / of_nat (length (cells s)) :: rat)
                            < 1 / 2
                        then Category else Text),
              sample_values = take 5 (dropna (cells s)),
              original_type = dtype s,
              null_count = isna_sum (cells s),
              unique_count = nunique (cells s),
              unique_ratio =
                Some (py_round2 E
                        (of_nat (length (unique (cells s))) / of_nat (length (cells s))))\<rparr>
     \<and> (\<forall>i. classify_series E s = Inr i \<longrightarrow>
            (type i = Category
               \<longleftrightarrow> (of_nat (length (unique (cells s))) / of_nat (length (cells s)) :: rat)
                     < 1 / 2)
            \<and> (type i = Text
               \<longleftrightarrow> (1 / 2 :: rat)
                     \<le> of_nat (length (unique (cells s))) / of_nat (length (cells s))))"
proof -
  let ?q = "of_nat (length (unique (cells s))) / of_nat (length (cells s)) :: rat"
  have ne: "cells s \<noteq> []" using assms(1) by (rule numeric_refused_nonempty)
  have "classify_series E s = categorical_text_inference E s"
    using assms by (simp add: classify_series_def)
  then have k: "classify_series E s =
      Inr ((info s (if ?q < 1 / 2 then Category else Text))
             \<lparr>unique_ratio := Some (py_round2 E ?q)\<rparr>)"
    using fallback_nonempty [OF ne, of E] by simp
  have r: "classify_series E s =
         Inr \<lparr>type = (if ?q < 1 / 2 then Category else Text),
              sample_values = take 5 (dropna (cells s)),
              original_type = dtype s,
              null_count = isna_sum (cells s),
              unique_count = nunique (cells s),
              unique_ratio = Some (py_round2 E ?q)\<rparr>"
    unfolding k by (simp add: info_def head_def SAMPLE_SIZE_def)
  have t: "\<forall>i. classify_series E s = Inr i \<longrightarrow>
            (type i = Category \<longleftrightarrow> ?q < 1 / 2) \<and> (type i = Text \<longleftrightarrow> 1 / 2 \<le> ?q)"
  proof (intro allI impI)
    fix i
    assume "classify_series E s = Inr i"
    then have "i = \<lparr>type = (if ?q < 1 / 2 then Category else Text),
              sample_values = take 5 (dropna (cells s)),
              original_type = dtype s,
              null_count = isna_sum (cells s),
              unique_count = nunique (cells s),
              unique_ratio = Some (py_round2 E ?q)\<rparr>"
      unfolding r by (simp only: sum.inject)
    then have "type i = (if ?q < 1 / 2 then Category else Text)"
      by (simp only: column_info.simps)
    then show "(type i = Category \<longleftrightarrow> ?q < 1 / 2) \<and> (type i = Text \<longleftrightarrow> 1 / 2 \<le> ?q)"
      by (cases "?q < 1 / 2") (simp_all add: not_less)
  qed
  from ne k r t unique_counts_missing [of "cells s"] show ?thesis by simp
qed

theorem fallback_classification_witness:
  "numeric_inference demo_pandas
       (object_series [Some ''red'', Some ''green'', Some ''blue'', Some ''red'',
                       Some ''green'', Some ''blue'', Some ''red'', Some ''green'',
                       Some ''blue'', Some ''red''])
     = RaisesValueOrTypeError
   \<and> datetime_inference demo_pandas
       (object_series [Some ''red'', Some ''green'', Some ''blue'', Some ''red'',
                       Some ''green'', Some ''blue'', Some ''red'', Some ''green'',
                       Some ''blue'', Some ''red''])
     = RaisesValueOrTypeError
   \<and> classify_series demo_pandas
       (object_series [Some ''red'', Some ''green'', Some ''blue'', Some ''red'',
                       Some ''green'', Some ''blue'', Some ''red'', Some ''green'',
                       Some ''blue'', Some ''red''])
     = Inr \<lparr>type = Category,
            sample_values = [''red'', ''green'', ''blue'', ''red'', ''green''],
            original_type = ''object'', null_count = 0, unique_count = 3,
            unique_ratio = Some (3 / 10)\<rparr>
   \<and> numeric_inference demo_pandas
       (object_series [Some ''xyz'', Some ''xyz'', Some ''xyz'', None])
     = RaisesValueOrTypeError
   \<and> datetime_inference demo_pandas
       (object_series [Some ''xyz'', Some ''xyz'', Some ''xyz'', None])
     = RaisesValueOrTypeError
   \<and> classify_series demo_pandas
       (object_series [Some ''xyz'', Some ''xyz'', Some ''xyz'', None])
     = Inr \<lparr>type = Text, sample_values = [''xyz'', ''xyz'', ''xyz''],
            original_type = ''object'', null_count = 1, unique_count = 1,
            unique_ratio = Some (1 / 2)\<rparr>"
proof -
  let ?c = "object_series [Some ''red'', Some ''green'', Some ''blue'', Some ''red'',
                       Some ''green'', Some ''blue'', Some ''red'', Some ''green'',
                       Some ''blue'', Some ''red'']"
  let ?s = "object_series [Some ''xyz'', Some ''xyz'', Some ''xyz'', None]"
  have nc: "numeric_inference demo_pandas ?c = RaisesValueOrTypeError"
    by (simp add: classify_eval demo_eval)
  have dc: "datetime_inference demo_pandas ?c = RaisesValueOrTypeError"
    by (simp add: classify_eval demo_eval)
  have n: "numeric_inference demo_pandas ?s = RaisesValueOrTypeError"
    by (simp add: classify_eval demo_eval)
  have d: "datetime_inference demo_pandas ?s = RaisesValueOrTypeError"
    by (simp add: classify_eval demo_eval)
  have kc: "classify_series demo_pandas ?c
     = Inr \<lparr>type = Category,
            sample_values = [''red'', ''green'', ''blue'', ''red'', ''green''],
            original_type = ''object'', null_count = 0, unique_count = 3,
            unique_ratio = Some (3 / 10)\<rparr>"
    using fallback_classification [OF nc dc]
    by (simp add: object_series_def info_def head_def SAMPLE_SIZE_def isna_sum_def
        nunique_def unique_def demo_pandas_def round_half_even2_def)
  have ks: "classify_series demo_pandas ?s
     = Inr \<lparr>type = Text, sample_values = [''xyz'', ''xyz'', ''xyz''],
            original_type = ''object'', null_count = 1, unique_count = 1,
            unique_ratio = Some (1 / 2)\<rparr>"
    using fallback_classification [OF n d]
    by (simp add: object_series_def info_def head_def SAMPLE_SIZE_def isna_sum_def
        nunique_def unique_def demo_pandas_def round_half_even2_def)
  from nc dc kc n d ks show ?thesis by simp
qed

section \<open>The request handler\<close>

lemma read_encodings_calls:
  "read_encodings read_csv encodings = (r, cs) \<Longrightarrow>
   Call_infer_and_convert_types \<notin> set cs \<and> Call_validate_dataframe \<notin> set cs"
proof (induction encodings arbitrary: r cs)
  case Nil
  then show ?case by simp
next
  case (Cons encoding rest)
  show ?case
  proof (cases "read_csv encoding = UnicodeDecodeError")
    case True
    obtain r' cs' where p: "read_encodings read_csv rest = (r', cs')"
      by (cases "read_encodings read_csv rest")
    then have "cs = Call_read_csv encoding # cs'" using Cons.prems True by simp
    then show ?thesis using Cons.IH [OF p] by simp
  next
    case False
    then have "cs = [Call_read_csv encoding]"
      using Cons.prems by (cases "read_csv encoding") simp_all
    then show ?thesis by simp
  qed
qed

lemma oversized_rejected:
  assumes "MAX_COLUMNS < length (columns df) \<or> MAX_ROWS < index_len df"
  shows "\<exists>m. m \<in> {''The file is empty'', too_many_columns_message, too_many_rows_message}
           \<and> validate_dataframe df = (False, Some m)"
  using assms
  by (auto simp: validate_dataframe_def column_names_def df_len_def)

lemma analyse_oversized:
  assumes "validate_dataframe df = (False, Some m)"
  shows "analyse E f df = (ErrorResponse 400 (Some m), [Call_validate_dataframe])"
  by (simp add: analyse_def assms)

text \<open>
  Claim C8. When the table that \<open>read_csv\<close> yields exceeds the column cap or the row cap,
  the request is rejected at validation: whatever the request, \<open>process_file\<close> does not
  call \<open>infer_and_convert_types\<close> and does not answer with a report; for a file that
  passed \<open>validate_file\<close> the answer is the 400 response with the validator's message,
  and the call to \<open>validate_dataframe\<close> is the last call made.
\<close>

theorem oversized_table_rejected_before_inference:
  assumes "MAX_COLUMNS < length (columns df) \<or> MAX_ROWS < index_len df"
    and "read_encodings read_csv [''utf-8'', ''latin1'', ''iso-8859-1''] = (Parsed df, cs)"
  shows "Call_infer_and_convert_types \<notin> set (snd (process_file E obj read_csv))
     \<and> (\<forall>d. fst (process_file E obj read_csv) \<noteq> Response d)
     \<and> (\<forall>f. obj = Got f \<and> validate_file f = (True, None) \<longrightarrow>
          (\<exists>m. m \<in> {''The file is empty'', too_many_columns_message, too_many_rows_message}
             \<and> process_file E obj read_csv
                 = (ErrorResponse 400 (Some m),
                    Call_validate_file # cs @ [Call_validate_dataframe])))"
proof -
  obtain m where m: "m \<in> {''The file is empty'', too_many_columns_message, too_many_rows_message}"
    and v: "validate_dataframe df = (False, Some m)"
    using oversized_rejected [OF assms(1)] by blast
  have a: "\<And>f. analyse E f df = (ErrorResponse 400 (Some m), [Call_validate_dataframe])"
    using v by (rule analyse_oversized)
  have c: "Call_infer_and_convert_types \<notin> set cs"
    using read_encodings_calls [OF assms(2)] by simp
  have passed: "\<And>f. name f \<noteq> [] \<Longrightarrow> validate_file f = (True, None) \<Longrightarrow>
      process_file E (Got f) read_csv
        = (ErrorResponse 400 (Some m), Call_validate_file # cs @ [Call_validate_dataframe])"
    by (simp add: process_file_def assms(2) a del: read_encodings.simps)
  have named: "\<And>f. validate_file f = (True, None) \<Longrightarrow> name f \<noteq> []"
    by (auto simp: validate_file_def)
  have 1: "Call_infer_and_convert_types \<notin> set (snd (process_file E obj read_csv))
     \<and> (\<forall>d. fst (process_file E obj read_csv) \<noteq> Response d)"
  proof (cases obj)
    case DoesNotExist
    then show ?thesis by (simp add: process_file_def)
  next
    case (GetRaises e)
    then show ?thesis by (simp add: process_file_def)
  next
    case (Got f)
    show ?thesis
    proof (cases "name f = []")
      case True
      then show ?thesis using Got by (simp add: process_file_def)
    next
      case False
      obtain ok msg where vf: "validate_file f = (ok, msg)" by (cases "validate_file f")
      show ?thesis
      proof (cases ok)
        case True
        have "msg = None" using vf True
          by (auto simp: validate_file_def Let_def split: if_splits sum.splits)
        then have "validate_file f = (True, None)" using vf True by simp
        from passed [OF False this] c Got show ?thesis by simp
      next
        case no: False
        then show ?thesis using Got False vf by (simp add: process_file_def)
      qed
    qed
  qed
  have 2: "\<forall>f. obj = Got f \<and> validate_file f = (True, None) \<longrightarrow>
          (\<exists>m. m \<in> {''The file is empty'', too_many_columns_message, too_many_rows_message}
             \<and> process_file E obj read_csv
                 = (ErrorResponse 400 (Some m),
                    Call_validate_file # cs @ [Call_validate_dataframe]))"
    using passed named m by blast
  from 1 2 show ?thesis by blast
qed

theorem oversized_table_rejected_before_inference_witness:
  "process_file demo_pandas (Got \<lparr>name = ''uploads/big.csv'', size_bytes = Inr 9000000\<rparr>)
     (\<lambda>encoding. Parsed \<lparr>index_len = 1000001,
                           columns = [(''n'', \<lparr>dtype = ''int64'',
                                              cells = replicate 1000001 (Some ''7'')\<rparr>)]\<rparr>)
   = (ErrorResponse 400 (Some ''Too many rows. Maximum allowed: 1000000''),
      [Call_validate_file, Call_read_csv ''utf-8'', Call_validate_dataframe])"
proof -
  let ?df = "\<lparr>index_len = 1000001,
                columns = [(''n'', \<lparr>dtype = ''int64'',
                                   cells = replicate 1000001 (Some ''7'')\<rparr>)]\<rparr>"
  let ?f = "\<lparr>name = ''uploads/big.csv'', size_bytes = Inr 9000000\<rparr>"
  have h: "MAX_COLUMNS < length (columns ?df) \<or> MAX_ROWS < index_len ?df"
    by (simp add: MAX_ROWS_def)
  have r: "read_encodings (\<lambda>encoding. Parsed ?df) [''utf-8'', ''latin1'', ''iso-8859-1'']
      = (Parsed ?df, [Call_read_csv ''utf-8''])"
    by simp
  have vf: "validate_file ?f = (True, None)"
    by (simp add: validate_file_def splitext_def lower_def lower_char_def
        skip_leading_dots_eval ALLOWED_EXTENSIONS_def MAX_FILE_SIZE_def)
  have nr: "validate_dataframe ?df = (False, Some too_many_rows_message)"
    by (simp add: validate_dataframe_def df_empty_def column_names_def df_len_def
        MAX_COLUMNS_def MAX_ROWS_def)
  from oversized_table_rejected_before_inference [OF h r, of demo_pandas "Got ?f"] vf
  obtain m where "process_file demo_pandas (Got ?f) (\<lambda>encoding. Parsed ?df)
      = (ErrorResponse 400 (Some m),
         Call_validate_file # [Call_read_csv ''utf-8''] @ [Call_validate_dataframe])"
    by blast
  moreover have "process_file demo_pandas (Got ?f) (\<lambda>encoding. Parsed ?df)
      = (ErrorResponse 400 (Some too_many_rows_message),
         [Call_validate_file, Call_read_csv ''utf-8'', Call_validate_dataframe])"
    by (simp add: process_file_def vf r analyse_def nr del: read_encodings.simps)
  ultimately show ?thesis by (simp add: too_many_rows_message_def)
qed

end
